theory Spec2Isabelle
  imports Complex_Main "HOL-Library.Sublist"
begin

section \<open>JavaScript values\<close>

text \<open>
  Values that travel through the two scripts. A request body is parsed JSON; a JavaScript
  value that may be \<open>undefined\<close> is a \<open>json option\<close> with \<open>None\<close> for \<open>undefined\<close>.
  JSON numbers are finite, so they are rationals here; only the test against zero is used.
\<close>

datatype json =
    JNull
  | JBool bool
  | JNum rat
  | JStr string
  | JArr "json list"
  | JObj "(string \<times> json) list"

type_synonym js_value = "json option"

text \<open>The truthiness test of \<open>!question\<close> (index.js, line 153).\<close>

fun truthy :: "js_value \<Rightarrow> bool" where
  "truthy None = False"
| "truthy (Some JNull) = False"
| "truthy (Some (JBool b)) = b"
| "truthy (Some (JNum n)) = (n \<noteq> 0)"
| "truthy (Some (JStr s)) = (s \<noteq> [])"
| "truthy (Some (JArr xs)) = True"
| "truthy (Some (JObj kvs)) = True"

text \<open>
  A value thrown by a library call, with its \<open>message\<close> property when that is a string.
  \<open>type_error\<close> is what the runtime raises for a method call on \<open>undefined\<close> (the text
  of its message depends on the engine).
\<close>

datatype js_error = Thrown "string option"

fun message :: "js_error \<Rightarrow> string option" where
  "message (Thrown m) = m"

definition type_error :: js_error where
  "type_error = Thrown (Some ''Cannot read properties of undefined'')"

text \<open>\<open>String.prototype.includes\<close>: the needle occurs somewhere in the text.\<close>

fun js_includes :: "string \<Rightarrow> string \<Rightarrow> bool" where
  "js_includes [] needle = (needle = [])"
| "js_includes (c # cs) needle = (prefix needle (c # cs) \<or> js_includes cs needle)"

section \<open>Environment\<close>

text \<open>
  \<open>process.env\<close> after dotenv has run: a variable is absent (\<open>None\<close>) or a string.
  An empty string is falsy as well.
\<close>

type_synonym env = "string \<rightharpoonup> string"

definition env_truthy :: "string option \<Rightarrow> bool" where
  "env_truthy v = (case v of None \<Rightarrow> False | Some s \<Rightarrow> s \<noteq> [])"

datatype port = PortEnv string | PortDefault nat

text \<open>\<open>process.env.PORT || 5000\<close> (index.js, line 21).\<close>

definition PORT :: "env \<Rightarrow> port" where
  "PORT e = (case e ''PORT'' of
               None \<Rightarrow> PortDefault 5000
             | Some s \<Rightarrow> if s \<noteq> [] then PortEnv s else PortDefault 5000)"

section \<open>Documents, conversation memory and prompts\<close>

record document =
  pageContent :: string
  page :: nat

text \<open>
  The conversation memory (\<open>BufferMemory\<close>) holds the turns saved so far, oldest first.
  \<open>saveContext\<close> stores one input/output pair at the end; \<open>loadMemoryVariables\<close> returns
  the history as message objects (\<open>returnMessages: true\<close>), a human message and an AI
  message for every turn.
\<close>

record turn =
  turn_input :: js_value
  turn_output :: string

type_synonym memory = "turn list"

datatype chat_message = HumanMessage js_value | AIMessage string

definition saveContext :: "memory \<Rightarrow> js_value \<Rightarrow> string \<Rightarrow> memory" where
  "saveContext mem inp out = mem @ [\<lparr>turn_input = inp, turn_output = out\<rparr>]"

definition loadMemoryVariables :: "memory \<Rightarrow> chat_message list" where
  "loadMemoryVariables mem =
     concat (map (\<lambda>t. [HumanMessage (turn_input t), AIMessage (turn_output t)]) mem)"

text \<open>The object passed to \<open>conversationChain.invoke\<close>: \<open>{ question }\<close>.\<close>

record chain_input =
  question :: js_value

text \<open>
  The three values substituted into the prompt template (index.js, lines 99 to 112):
  \<open>{context}\<close>, \<open>{chat_history}\<close> and \<open>{question}\<close>.
\<close>

record prompt_value =
  pv_context :: "document list"
  pv_question :: chain_input
  pv_chat_history :: "chat_message list"

datatype llm_response = LlmResponse string

text \<open>\<open>StringOutputParser\<close>: the text content of the model's message.\<close>

fun stringOutputParser :: "llm_response \<Rightarrow> string" where
  "stringOutputParser (LlmResponse s) = s"

section \<open>Effects\<close>

text \<open>Console messages, named by the place that prints them.\<close>

datatype msg =
    DiagHeader                     \<comment> \<open>index.js 33\<close>
  | DiagGoogleApiKey bool          \<comment> \<open>index.js 34, processPolicy.js 21: loaded or not\<close>
  | DiagSupabaseUrl bool           \<comment> \<open>index.js 35, processPolicy.js 25\<close>
  | DiagServiceRoleKey bool        \<comment> \<open>index.js 36, processPolicy.js 26\<close>
  | DiagFooter                     \<comment> \<open>index.js 40\<close>
  | MissingEnv                     \<comment> \<open>index.js 44, processPolicy.js 40\<close>
  | InitLLM                        \<comment> \<open>index.js 60\<close>
  | LLMReady                       \<comment> \<open>index.js 67\<close>
  | InitVectorStore                \<comment> \<open>index.js 69\<close>
  | VectorStoreReady               \<comment> \<open>index.js 84\<close>
  | RetrieverReady                 \<comment> \<open>index.js 89\<close>
  | InitMemory                     \<comment> \<open>index.js 91\<close>
  | MemoryReady                    \<comment> \<open>index.js 96\<close>
  | ChainReady                     \<comment> \<open>index.js 134\<close>
  | InitFailed js_error            \<comment> \<open>index.js 136\<close>
  | ReceivedQuestion js_value      \<comment> \<open>index.js 151\<close>
  | AnswerGenerated string         \<comment> \<open>index.js 167\<close>
  | GenerateFailed js_error        \<comment> \<open>index.js 170\<close>
  | ServerListening port           \<comment> \<open>index.js 179\<close>
  | ScriptStarted                  \<comment> \<open>processPolicy.js 20\<close>
  | StartProcess                   \<comment> \<open>processPolicy.js 32\<close>
  | LoadingPdf                     \<comment> \<open>processPolicy.js 48\<close>
  | PdfLoaded nat                  \<comment> \<open>processPolicy.js 51\<close>
  | Splitting                      \<comment> \<open>processPolicy.js 54\<close>
  | SplitDone nat                  \<comment> \<open>processPolicy.js 60\<close>
  | GeneratingEmbeddings           \<comment> \<open>processPolicy.js 63\<close>
  | Uploading                      \<comment> \<open>processPolicy.js 72\<close>
  | UploadSucceeded                \<comment> \<open>processPolicy.js 81\<close>
  | UploadFailed js_error          \<comment> \<open>processPolicy.js 83\<close>
  | DimensionHint nat              \<comment> \<open>processPolicy.js 85, 88, 91, 94: hints 1 to 4\<close>
  | ProcessDone                    \<comment> \<open>processPolicy.js 100\<close>
  | Uncaught js_error              \<comment> \<open>processPolicy.js 104\<close>

text \<open>Objects built from the libraries, with the options the source gives them.\<close>

datatype construct =
    NewChatGoogleGenerativeAI "string option" string rat nat
      \<comment> \<open>apiKey, modelName, temperature, maxRetries\<close>
  | CreateClient "string option" "string option"
      \<comment> \<open>supabaseUrl, supabaseServiceRoleKey\<close>
  | NewGoogleGenerativeAIEmbeddings "string option" string
      \<comment> \<open>apiKey, modelName\<close>
  | NewSupabaseVectorStore string string
      \<comment> \<open>tableName, queryName\<close>
  | AsRetriever nat
      \<comment> \<open>k\<close>
  | NewBufferMemory string bool
      \<comment> \<open>memoryKey, returnMessages\<close>
  | PromptFromTemplate
  | RunnableSequenceFrom
  | NewPDFLoader string
      \<comment> \<open>file name, below the script's directory\<close>
  | NewRecursiveCharacterTextSplitter nat nat
      \<comment> \<open>chunkSize, chunkOverlap\<close>

datatype middleware = Cors | ExpressJson

datatype effect =
    ConsoleLog msg
  | ConsoleError msg
  | AppUse middleware
  | Construct construct
  | AppGet string
  | AppPost string
  | AppListen port
  | RetrieverInvoke js_value
  | LoadMemory
  | LlmInvoke prompt_value
  | SaveContext js_value string
  | LoaderLoad
  | SplitDocuments "document list"
  | FromDocuments "document list"

section \<open>Configuration check\<close>

text \<open>
  \<open>!googleApiKey || !supabaseUrl || !supabaseServiceRoleKey\<close>
  (index.js line 43, processPolicy.js line 39).
\<close>

definition config_missing :: "env \<Rightarrow> bool" where
  "config_missing e =
     (\<not> env_truthy (e ''GOOGLE_API_KEY'') \<or> \<not> env_truthy (e ''SUPABASE_URL'')
      \<or> \<not> env_truthy (e ''SUPABASE_SERVICE_ROLE_KEY''))"

definition env_diagnostics :: "env \<Rightarrow> effect list" where
  "env_diagnostics e =
     [ConsoleLog (DiagGoogleApiKey (env_truthy (e ''GOOGLE_API_KEY''))),
      ConsoleLog (DiagSupabaseUrl (env_truthy (e ''SUPABASE_URL''))),
      ConsoleLog (DiagServiceRoleKey (env_truthy (e ''SUPABASE_SERVICE_ROLE_KEY'')))]"

section \<open>The ingestion script (processPolicy.js)\<close>

text \<open>
  What the script's collaborators answer: the constructors it calls (each returns or
  throws), the PDF loader, the text splitter and \<open>SupabaseVectorStore.fromDocuments\<close>
  (which embeds the chunks and writes the rows). Each awaited call either returns or throws.
\<close>

record ingest_world =
  iw_env :: env
  iw_throws :: "construct \<Rightarrow> js_error option"
  loader_load :: "js_error + document list"
  splitDocuments :: "document list \<Rightarrow> js_error + document list"
  fromDocuments :: "document list \<Rightarrow> js_error option"

text \<open>
  How an async function ends: its promise resolves, it rejects with the thrown value,
  or the process is exited from inside it.
\<close>

datatype settled = Resolved | Rejected js_error | ProcessExit nat

record run =
  run_effects :: "effect list"
  run_end :: settled

text \<open>
  The \<open>catch\<close> block of the upload (processPolicy.js, lines 82 to 98). It logs the error and,
  when the message names a dimension mismatch, four hints. It does not rethrow. Reading
  \<open>error.message.includes\<close> throws when the error carries no message.
\<close>

definition upload_catch :: "js_error \<Rightarrow> effect list \<times> js_error option" where
  "upload_catch error =
     (case message error of
        None \<Rightarrow> ([ConsoleError (UploadFailed error)], Some type_error)
      | Some m \<Rightarrow>
          ([ConsoleError (UploadFailed error)] @
           (if js_includes m ''vector dimension mismatch''
            then [ConsoleError (DimensionHint 1), ConsoleError (DimensionHint 2),
                  ConsoleError (DimensionHint 3), ConsoleError (DimensionHint 4)]
            else []),
           None))"

text \<open>
  \<open>processAndEmbedPolicy\<close> (processPolicy.js, lines 31 to 101). Only the call of
  \<open>fromDocuments\<close> stands inside the \<open>try\<close>; a throw of a constructor, of the loader or of
  the splitter rejects the promise.
\<close>

definition processAndEmbedPolicy :: "ingest_world \<Rightarrow> run" where
  "processAndEmbedPolicy w =
     (let e = iw_env w;
          googleApiKey = e ''GOOGLE_API_KEY'';
          supabaseUrl = e ''SUPABASE_URL'';
          supabaseServiceRoleKey = e ''SUPABASE_SERVICE_ROLE_KEY'';
          new_loader = NewPDFLoader ''returpolicy.pdf'';
          new_splitter = NewRecursiveCharacterTextSplitter 1000 200;
          new_embeddings = NewGoogleGenerativeAIEmbeddings googleApiKey ''embedding-001'';
          new_client = CreateClient supabaseUrl supabaseServiceRoleKey;
          at_loader = [ConsoleLog StartProcess, ConsoleLog LoadingPdf, Construct new_loader]
      in
      if config_missing e
      then \<lparr>run_effects = [ConsoleLog StartProcess, ConsoleError MissingEnv],
            run_end = ProcessExit 1\<rparr>
      else
        (case iw_throws w new_loader of
           Some err \<Rightarrow> \<lparr>run_effects = at_loader, run_end = Rejected err\<rparr>
         | None \<Rightarrow>
        (case loader_load w of
           Inl err \<Rightarrow> \<lparr>run_effects = at_loader @ [LoaderLoad], run_end = Rejected err\<rparr>
         | Inr docs \<Rightarrow>
        (let at_splitter = at_loader @
               [LoaderLoad, ConsoleLog (PdfLoaded (length docs)), ConsoleLog Splitting,
                Construct new_splitter]
         in
        (case iw_throws w new_splitter of
           Some err \<Rightarrow> \<lparr>run_effects = at_splitter, run_end = Rejected err\<rparr>
         | None \<Rightarrow>
        (case splitDocuments w docs of
           Inl err \<Rightarrow>
             \<lparr>run_effects = at_splitter @ [SplitDocuments docs], run_end = Rejected err\<rparr>
         | Inr splittedDocs \<Rightarrow>
        (let at_embeddings = at_splitter @
               [SplitDocuments docs, ConsoleLog (SplitDone (length splittedDocs)),
                ConsoleLog GeneratingEmbeddings, Construct new_embeddings]
         in
        (case iw_throws w new_embeddings of
           Some err \<Rightarrow> \<lparr>run_effects = at_embeddings, run_end = Rejected err\<rparr>
         | None \<Rightarrow>
        (let at_client = at_embeddings @ [ConsoleLog Uploading, Construct new_client]
         in
        (case iw_throws w new_client of
           Some err \<Rightarrow> \<lparr>run_effects = at_client, run_end = Rejected err\<rparr>
         | None \<Rightarrow>
        (let pre_upload = at_client @ [FromDocuments splittedDocs]
         in
        (case fromDocuments w splittedDocs of
           None \<Rightarrow>
             \<lparr>run_effects = pre_upload @ [ConsoleLog UploadSucceeded, ConsoleLog ProcessDone],
              run_end = Resolved\<rparr>
         | Some error \<Rightarrow>
             (case upload_catch error of
                (es, Some err) \<Rightarrow>
                  \<lparr>run_effects = pre_upload @ es, run_end = Rejected err\<rparr>
              | (es, None) \<Rightarrow>
                  \<lparr>run_effects = pre_upload @ es @ [ConsoleLog ProcessDone],
                   run_end = Resolved\<rparr>)))))))))))))"

text \<open>
  The whole script: the top-level diagnostics, then
  \<open>processAndEmbedPolicy().catch(console.error)\<close>. A rejection is printed and the process
  still ends with status 0; only \<open>process.exit(1)\<close> gives another status.
\<close>

record script_run =
  script_effects :: "effect list"
  exit_status :: nat

definition processPolicy_script :: "ingest_world \<Rightarrow> script_run" where
  "processPolicy_script w =
     (let top = ConsoleLog ScriptStarted # env_diagnostics (iw_env w);
          r = processAndEmbedPolicy w
      in
      case run_end r of
        ProcessExit n \<Rightarrow> \<lparr>script_effects = top @ run_effects r, exit_status = n\<rparr>
      | Resolved \<Rightarrow> \<lparr>script_effects = top @ run_effects r, exit_status = 0\<rparr>
      | Rejected err \<Rightarrow>
          \<lparr>script_effects = top @ run_effects r @ [ConsoleError (Uncaught err)],
           exit_status = 0\<rparr>)"

section \<open>Service bootstrap (index.js)\<close>

text \<open>
  The module's variables \<open>llm\<close>, \<open>vectorStore\<close>, \<open>retriever\<close>, \<open>conversationChain\<close> and
  \<open>memory\<close> (index.js, lines 51 to 55) are declared without a value. An object is known by
  the construction that built it; of the conversation memory the turns it holds are kept.
\<close>

record globals =
  g_llm :: "construct option"
  g_vectorStore :: "construct option"
  g_retriever :: "construct option"
  g_conversationChain :: "construct option"
  g_memory :: "memory option"

definition undefined_globals :: globals where
  "undefined_globals =
     \<lparr>g_llm = None, g_vectorStore = None, g_retriever = None, g_conversationChain = None,
      g_memory = None\<rparr>"

text \<open>
  The body of the \<open>try\<close> in \<open>initializeAIComponents\<close> is straight-line code: console
  messages and constructions, run until the first one throws. A construction is assigned
  to one of the module's variables, or it is local (a \<open>const\<close> or an argument).
\<close>

datatype target = LetLlm | LetVectorStore | LetRetriever | LetMemory | LetConversationChain | Local

datatype stmt = Log msg | New target construct

definition init_statements :: "env \<Rightarrow> stmt list" where
  "init_statements e =
     [Log InitLLM,
      New LetLlm (NewChatGoogleGenerativeAI (e ''GOOGLE_API_KEY'') ''gemini-1.5-flash'' 0 2),
      Log LLMReady,
      Log InitVectorStore,
      New Local (CreateClient (e ''SUPABASE_URL'') (e ''SUPABASE_SERVICE_ROLE_KEY'')),
      New Local (NewGoogleGenerativeAIEmbeddings (e ''GOOGLE_API_KEY'') ''embedding-001''),
      New LetVectorStore (NewSupabaseVectorStore ''documents'' ''match_documents''),
      Log VectorStoreReady,
      New LetRetriever (AsRetriever 3),
      Log RetrieverReady,
      Log InitMemory,
      New LetMemory (NewBufferMemory ''chat_history'' True),
      Log MemoryReady,
      New Local PromptFromTemplate,
      New LetConversationChain RunnableSequenceFrom,
      Log ChainReady]"

text \<open>The assignment of a built object. A new \<open>BufferMemory\<close> holds no turn.\<close>

fun assign :: "target \<Rightarrow> construct \<Rightarrow> globals \<Rightarrow> globals" where
  "assign LetLlm c g = g\<lparr>g_llm := Some c\<rparr>"
| "assign LetVectorStore c g = g\<lparr>g_vectorStore := Some c\<rparr>"
| "assign LetRetriever c g = g\<lparr>g_retriever := Some c\<rparr>"
| "assign LetMemory c g = g\<lparr>g_memory := Some []\<rparr>"
| "assign LetConversationChain c g = g\<lparr>g_conversationChain := Some c\<rparr>"
| "assign Local c g = g"

fun run_try :: "(construct \<Rightarrow> js_error option) \<Rightarrow> stmt list \<Rightarrow> globals \<Rightarrow>
                effect list \<times> globals \<times> js_error option" where
  "run_try throws [] g = ([], g, None)"
| "run_try throws (Log m # ss) g =
     (case run_try throws ss g of (es, g', r) \<Rightarrow> (ConsoleLog m # es, g', r))"
| "run_try throws (New t c # ss) g =
     (case throws c of
        Some err \<Rightarrow> ([Construct c], g, Some err)
      | None \<Rightarrow>
          (case run_try throws ss (assign t c g) of
             (es, g', r) \<Rightarrow> (Construct c # es, g', r)))"

text \<open>
  \<open>initializeAIComponents\<close> (index.js, lines 58 to 139): the statements run on the
  module's variables; on a throw the \<open>catch\<close> logs the error and exits the process with
  status 1.
\<close>

record init_run =
  ir_effects :: "effect list"
  ir_globals :: globals
  ir_exit :: "nat option"

definition initializeAIComponents :: "env \<Rightarrow> (construct \<Rightarrow> js_error option) \<Rightarrow> init_run" where
  "initializeAIComponents e throws =
     (case run_try throws (init_statements e) undefined_globals of
        (es, g, None) \<Rightarrow> \<lparr>ir_effects = es, ir_globals = g, ir_exit = None\<rparr>
      | (es, g, Some err) \<Rightarrow>
          \<lparr>ir_effects = es @ [ConsoleError (InitFailed err)], ir_globals = g,
           ir_exit = Some 1\<rparr>)"

text \<open>
  The process: exited with a status, or serving with the module's \<open>memory\<close> (\<open>None\<close> while
  that variable has no value).
\<close>

datatype proc_state = Exited nat | Serving "memory option"

record startup =
  st_effects :: "effect list"
  st_state :: proc_state

text \<open>
  The top level of index.js. After the bootstrap the routes are registered and
  \<open>app.listen(PORT)\<close> is called (lines 142 to 181) with nothing to catch its failure: when
  the port cannot be bound (\<open>listen\<close> answers an error) the error is uncaught and ends the
  process with status 1.
\<close>

definition index_main ::
    "env \<Rightarrow> (construct \<Rightarrow> js_error option) \<Rightarrow> (port \<Rightarrow> js_error option) \<Rightarrow> startup" where
  "index_main e throws listen =
     (let top = [AppUse Cors, AppUse ExpressJson, ConsoleLog DiagHeader] @ env_diagnostics e @
                [ConsoleLog DiagFooter]
      in
      if config_missing e
      then \<lparr>st_effects = top @ [ConsoleError MissingEnv], st_state = Exited 1\<rparr>
      else
        (let r = initializeAIComponents e throws in
         (case ir_exit r of
            Some n \<Rightarrow> \<lparr>st_effects = top @ ir_effects r, st_state = Exited n\<rparr>
          | None \<Rightarrow>
             (let routes = [AppGet ''/'', AppPost ''/query'', AppListen (PORT e)] in
              (case listen (PORT e) of
                 Some err \<Rightarrow>
                   \<lparr>st_effects = top @ ir_effects r @ routes, st_state = Exited 1\<rparr>
               | None \<Rightarrow>
                   \<lparr>st_effects = top @ ir_effects r @ routes @
                                 [ConsoleLog (ServerListening (PORT e))],
                    st_state = Serving (g_memory (ir_globals r))\<rparr>)))))"

section \<open>The conversation chain and the routes (index.js)\<close>

text \<open>
  What the chain's collaborators answer for one request: the retriever and the hosted
  model. Both either return or throw.
\<close>

record query_world =
  retriever_invoke :: "js_value \<Rightarrow> js_error + document list"
  llm_invoke :: "prompt_value \<Rightarrow> js_error + llm_response"

record chain_run =
  cr_effects :: "effect list"
  cr_outcome :: "js_error + string"

text \<open>
  \<open>conversationChain.invoke\<close> (index.js, lines 115 to 133). Step 1 builds the three prompt
  inputs: the retriever is called with \<open>input.question\<close>, the whole input is passed through
  as \<open>question\<close>, and the history is loaded from the memory. Step 2 fills the template,
  step 3 calls the model, step 4 parses its answer. A throw in any step ends the chain.
\<close>

definition conversationChain_invoke :: "query_world \<Rightarrow> memory \<Rightarrow> chain_input \<Rightarrow> chain_run" where
  "conversationChain_invoke w mem input =
     (let chat_history = loadMemoryVariables mem;
          step1 = [RetrieverInvoke (question input), LoadMemory]
      in
      (case retriever_invoke w (question input) of
         Inl err \<Rightarrow> \<lparr>cr_effects = step1, cr_outcome = Inl err\<rparr>
       | Inr docs \<Rightarrow>
          (let prompt = \<lparr>pv_context = docs, pv_question = input,
                         pv_chat_history = chat_history\<rparr>
           in
           (case llm_invoke w prompt of
              Inl err \<Rightarrow> \<lparr>cr_effects = step1 @ [LlmInvoke prompt], cr_outcome = Inl err\<rparr>
            | Inr r \<Rightarrow>
                \<lparr>cr_effects = step1 @ [LlmInvoke prompt],
                 cr_outcome = Inr (stringOutputParser r)\<rparr>))))"

text \<open>
  The body that \<open>express.json()\<close> hands to the route is an object or an array.
  \<open>const { question } = req.body\<close> reads the member named \<open>question\<close>; of members with the
  same name the parser keeps the last; an array has no such member.
\<close>

datatype req_body = BodyObject "(string \<times> json) list" | BodyArray "json list"

fun destructure_question :: "req_body \<Rightarrow> js_value" where
  "destructure_question (BodyObject kvs) = map_of (rev kvs) ''question''"
| "destructure_question (BodyArray xs) = None"

datatype payload = SendText string | SendJson json

record response =
  res_status :: nat
  res_payload :: payload

text \<open>The texts of the responses, as UTF-8 bytes.\<close>

definition welcome_text :: string where
  "welcome_text = ''V'' @ [CHR 0xC3, CHR 0xA4] @
     ''lkommen till Return Policy Chatbot Backend (AI redo)!''"

definition question_missing_text :: string where
  "question_missing_text = ''Fr'' @ [CHR 0xC3, CHR 0xA5] @ ''ga saknas i f'' @
     [CHR 0xC3, CHR 0xB6] @ ''rfr'' @ [CHR 0xC3, CHR 0xA5] @ ''gan.''"

definition generate_failed_text :: string where
  "generate_failed_text = ''Kunde inte generera svar. F'' @ [CHR 0xC3, CHR 0xB6] @
     ''rs'' @ [CHR 0xC3, CHR 0xB6] @ ''k igen senare.''"

text \<open>
  What a route handler did: its response, the memory it leaves, its effects, and how the
  handler itself ended. An error thrown inside it and caught there leaves it \<open>Resolved\<close>;
  one that escapes it leaves it \<open>Rejected\<close>.
\<close>

record handled =
  h_response :: response
  h_memory :: memory
  h_effects :: "effect list"
  h_end :: settled

text \<open>\<open>app.get("/")\<close> (index.js, lines 144 to 146).\<close>

definition get_root :: "memory \<Rightarrow> handled" where
  "get_root mem =
     \<lparr>h_response = \<lparr>res_status = 200, res_payload = SendText welcome_text\<rparr>,
      h_memory = mem, h_effects = [], h_end = Resolved\<rparr>"

text \<open>
  \<open>app.post("/query")\<close> (index.js, lines 149 to 175). The chain is awaited inside the
  \<open>try\<close> (lines 157 to 168); what it throws is the \<open>error\<close> of the \<open>catch\<close> (lines 169 to
  174), which logs it and answers 500, so the handler ends normally.
\<close>

definition post_query :: "query_world \<Rightarrow> memory \<Rightarrow> req_body \<Rightarrow> handled" where
  "post_query w mem body =
     (let q = destructure_question body;
          received = [ConsoleLog (ReceivedQuestion q)]
      in
      if \<not> truthy q
      then \<lparr>h_response = \<lparr>res_status = 400,
                           res_payload = SendJson (JObj [(''error'', JStr question_missing_text)])\<rparr>,
            h_memory = mem, h_effects = received, h_end = Resolved\<rparr>
      else
        (let r = conversationChain_invoke w mem \<lparr>question = q\<rparr> in
         (case cr_outcome r of
            Inr result \<Rightarrow>
              \<lparr>h_response = \<lparr>res_status = 200,
                              res_payload = SendJson (JObj [(''answer'', JStr result)])\<rparr>,
               h_memory = saveContext mem q result,
               h_effects = received @ cr_effects r @
                           [SaveContext q result, ConsoleLog (AnswerGenerated result)],
               h_end = Resolved\<rparr>
          | Inl error \<Rightarrow>
              \<lparr>h_response = \<lparr>res_status = 500,
                              res_payload = SendJson (JObj [(''error'', JStr generate_failed_text)])\<rparr>,
               h_memory = mem,
               h_effects = received @ cr_effects r @ [ConsoleError (GenerateFailed error)],
               h_end = Resolved\<rparr>)))"

text \<open>
  The running service: every request is routed to its handler. A handler that ends
  normally leaves the process serving with the memory it returns; an error that escapes a
  handler is uncaught and ends the process with status 1, and an exit inside a handler
  ends it with that status. While the module's \<open>memory\<close> has no value no turn can be
  stored.
\<close>

datatype request = GetRoot | PostQuery req_body

fun handle_request :: "query_world \<Rightarrow> memory \<Rightarrow> request \<Rightarrow> handled" where
  "handle_request w mem GetRoot = get_root mem"
| "handle_request w mem (PostQuery body) = post_query w mem body"

fun after_handler :: "handled \<Rightarrow> proc_state" where
  "after_handler h =
     (case h_end h of
        Resolved \<Rightarrow> Serving (Some (h_memory h))
      | Rejected err \<Rightarrow> Exited 1
      | ProcessExit n \<Rightarrow> Exited n)"

fun serve :: "proc_state \<Rightarrow> query_world \<times> request \<Rightarrow> proc_state" where
  "serve (Exited n) (w, req) = Exited n"
| "serve (Serving None) (w, req) = Serving None"
| "serve (Serving (Some mem)) (w, req) = after_handler (handle_request w mem req)"

text \<open>The calls a trace makes to the retriever and to the model.\<close>

fun retriever_inputs :: "effect list \<Rightarrow> js_value list" where
  "retriever_inputs [] = []"
| "retriever_inputs (RetrieverInvoke v # es) = v # retriever_inputs es"
| "retriever_inputs (e # es) = retriever_inputs es"

fun llm_prompts :: "effect list \<Rightarrow> prompt_value list" where
  "llm_prompts [] = []"
| "llm_prompts (LlmInvoke p # es) = p # llm_prompts es"
| "llm_prompts (e # es) = llm_prompts es"

text \<open>The constructions a trace performs, in order.\<close>

fun constructions :: "effect list \<Rightarrow> construct list" where
  "constructions [] = []"
| "constructions (Construct c # es) = c # constructions es"
| "constructions (e # es) = constructions es"

section \<open>Example inputs\<close>

definition example_env :: env where
  "example_env = [''GOOGLE_API_KEY'' \<mapsto> ''g-key'', ''SUPABASE_URL'' \<mapsto> ''https://db.example'',
                  ''SUPABASE_SERVICE_ROLE_KEY'' \<mapsto> ''role-key'']"

definition incomplete_env :: env where
  "incomplete_env = [''GOOGLE_API_KEY'' \<mapsto> ''g-key'', ''SUPABASE_SERVICE_ROLE_KEY'' \<mapsto> ''role-key'']"

definition example_chunk :: document where
  "example_chunk = \<lparr>pageContent = ''Returns are accepted within 30 days.'', page = 0\<rparr>"

definition example_world :: query_world where
  "example_world =
     \<lparr>retriever_invoke = (\<lambda>q. Inr [example_chunk]),
      llm_invoke = (\<lambda>p. Inr (LlmResponse (concat (map pageContent (pv_context p)))))\<rparr>"

definition retriever_down_world :: query_world where
  "retriever_down_world =
     \<lparr>retriever_invoke = (\<lambda>q. Inl (Thrown (Some ''fetch failed''))),
      llm_invoke = (\<lambda>p. Inr (LlmResponse ''unused''))\<rparr>"

definition llm_down_world :: query_world where
  "llm_down_world =
     \<lparr>retriever_invoke = (\<lambda>q. Inr [example_chunk]),
      llm_invoke = (\<lambda>p. Inl (Thrown (Some ''quota exceeded'')))\<rparr>"

definition example_question :: req_body where
  "example_question = BodyObject [(''question'', JStr ''Can I return shoes?'')]"

definition example_memory :: memory where
  "example_memory = [\<lparr>turn_input = Some (JStr ''Hi''), turn_output = ''Hello''\<rparr>]"

definition other_memory :: memory where
  "other_memory = [\<lparr>turn_input = Some (JStr ''Do you sell hats?''), turn_output = ''No''\<rparr>,
                   \<lparr>turn_input = Some (JStr ''Shoes?''), turn_output = ''Yes''\<rparr>]"

definition dimension_mismatch_world :: ingest_world where
  "dimension_mismatch_world =
     \<lparr>iw_env = example_env,
      iw_throws = (\<lambda>c. None),
      loader_load = Inr [example_chunk],
      splitDocuments = (\<lambda>docs. Inr docs),
      fromDocuments =
        (\<lambda>docs. Some (Thrown (Some ''expected 1536 dimensions: vector dimension mismatch'')))\<rparr>"

definition connection_refused_world :: ingest_world where
  "connection_refused_world =
     \<lparr>iw_env = example_env,
      iw_throws = (\<lambda>c. None),
      loader_load = Inr [example_chunk],
      splitDocuments = (\<lambda>docs. Inr docs),
      fromDocuments = (\<lambda>docs. Some (Thrown (Some ''connection refused'')))\<rparr>"

section \<open>Properties\<close>

lemma example_env_complete: "\<not> config_missing example_env"
  by (simp add: config_missing_def example_env_def env_truthy_def)

lemma absent_is_missing:
  "e ''GOOGLE_API_KEY'' = None \<or> e ''SUPABASE_URL'' = None
     \<or> e ''SUPABASE_SERVICE_ROLE_KEY'' = None \<Longrightarrow> config_missing e"
  by (auto simp add: config_missing_def env_truthy_def)

text \<open>
  Two paths beside the ones the properties below follow. In the ingestion script a
  constructor stands outside the \<open>try\<close>: when \<open>createClient\<close> throws, the run is rejected
  before any upload and the error is printed by the script's last line. In the service a
  failing \<open>listen\<close> ends the process with status 1 after the bootstrap; otherwise the
  service starts with the memory the bootstrap built.
\<close>

lemma client_throw_rejects:
  assumes "\<not> config_missing (iw_env w)"
      and "iw_throws w (NewPDFLoader ''returpolicy.pdf'') = None"
      and "loader_load w = Inr docs"
      and "iw_throws w (NewRecursiveCharacterTextSplitter 1000 200) = None"
      and "splitDocuments w docs = Inr chunks"
      and "iw_throws w (NewGoogleGenerativeAIEmbeddings (iw_env w ''GOOGLE_API_KEY'')
                          ''embedding-001'') = None"
      and "iw_throws w (CreateClient (iw_env w ''SUPABASE_URL'')
                          (iw_env w ''SUPABASE_SERVICE_ROLE_KEY'')) = Some err"
  shows "run_end (processAndEmbedPolicy w) = Rejected err
       \<and> FromDocuments chunks \<notin> set (run_effects (processAndEmbedPolicy w))
       \<and> last (script_effects (processPolicy_script w)) = ConsoleError (Uncaught err)"
  using assms
  by (simp add: processPolicy_script_def processAndEmbedPolicy_def Let_def)

lemma index_main_listen_fails:
  assumes "\<not> config_missing e" and "\<forall>c. throws c = None" and "listen (PORT e) = Some err"
  shows "st_state (index_main e throws listen) = Exited 1"
  using assms
  by (simp add: index_main_def initializeAIComponents_def init_statements_def Let_def)

lemma index_main_serves:
  assumes "\<not> config_missing e" and "\<forall>c. throws c = None" and "listen (PORT e) = None"
  shows "st_state (index_main e throws listen) = Serving (Some [])
       \<and> last (st_effects (index_main e throws listen)) = ConsoleLog (ServerListening (PORT e))"
  using assms
  by (simp add: index_main_def initializeAIComponents_def init_statements_def
      undefined_globals_def Let_def)

subsection \<open>Ingestion: a failed batch write\<close>

text \<open>
  C1, as stated: if the batch write to the vector store fails, the ingestion run aborts and
  fails with a store-write error instead of completing as a success. The source does
  otherwise. With every configuration value present, no constructor throwing and a write
  that throws "vector dimension mismatch", \<open>processAndEmbedPolicy\<close> resolves, its last
  message is the one of line 100 ("the process is done"), and the script ends with
  status 0.
\<close>

theorem store_failure_not_raised_counterexample:
  "fromDocuments dimension_mismatch_world [example_chunk]
     = Some (Thrown (Some ''expected 1536 dimensions: vector dimension mismatch''))
   \<and> run_end (processAndEmbedPolicy dimension_mismatch_world) = Resolved
   \<and> run_end (processAndEmbedPolicy dimension_mismatch_world)
       \<noteq> Rejected (Thrown (Some ''expected 1536 dimensions: vector dimension mismatch''))
   \<and> last (run_effects (processAndEmbedPolicy dimension_mismatch_world)) = ConsoleLog ProcessDone
   \<and> exit_status (processPolicy_script dimension_mismatch_world) = 0"
  by (simp add: processPolicy_script_def processAndEmbedPolicy_def dimension_mismatch_world_def
      example_env_complete upload_catch_def Let_def)

text \<open>
  C1, amended: when the run reaches the batch write (the configuration is present, no
  constructor throws, the document loads and splits) and the write fails with an error that
  carries a message, the error is caught and printed on the error stream, followed by the
  four dimension hints exactly when the message contains "vector dimension mismatch", and
  it is not raised again: the run goes on to print its closing message,
  \<open>processAndEmbedPolicy\<close> resolves and the script ends with exit status 0. The whole
  trace of the run is the one given.
\<close>

theorem store_failure_is_caught:
  assumes "\<not> config_missing (iw_env w)"
      and "\<forall>c. iw_throws w c = None"
      and "loader_load w = Inr docs"
      and "splitDocuments w docs = Inr chunks"
      and "fromDocuments w chunks = Some err"
      and "message err = Some m"
  shows "run_end (processAndEmbedPolicy w) = Resolved
       \<and> run_effects (processAndEmbedPolicy w) =
           [ConsoleLog StartProcess, ConsoleLog LoadingPdf,
            Construct (NewPDFLoader ''returpolicy.pdf''), LoaderLoad,
            ConsoleLog (PdfLoaded (length docs)), ConsoleLog Splitting,
            Construct (NewRecursiveCharacterTextSplitter 1000 200), SplitDocuments docs,
            ConsoleLog (SplitDone (length chunks)), ConsoleLog GeneratingEmbeddings,
            Construct (NewGoogleGenerativeAIEmbeddings (iw_env w ''GOOGLE_API_KEY'')
                         ''embedding-001''),
            ConsoleLog Uploading,
            Construct (CreateClient (iw_env w ''SUPABASE_URL'')
                         (iw_env w ''SUPABASE_SERVICE_ROLE_KEY'')),
            FromDocuments chunks,
            ConsoleError (UploadFailed err)] @
           (if js_includes m ''vector dimension mismatch''
            then [ConsoleError (DimensionHint 1), ConsoleError (DimensionHint 2),
                  ConsoleError (DimensionHint 3), ConsoleError (DimensionHint 4)]
            else []) @
           [ConsoleLog ProcessDone]
       \<and> ConsoleError (UploadFailed err) \<in> set (run_effects (processAndEmbedPolicy w))
       \<and> last (run_effects (processAndEmbedPolicy w)) = ConsoleLog ProcessDone
       \<and> processPolicy_script w =
           \<lparr>script_effects = ConsoleLog ScriptStarted # env_diagnostics (iw_env w) @
                              run_effects (processAndEmbedPolicy w),
            exit_status = 0\<rparr>"
  using assms
  by (simp add: processPolicy_script_def processAndEmbedPolicy_def upload_catch_def Let_def)

theorem store_failure_is_caught_witness:
  "\<not> config_missing (iw_env dimension_mismatch_world)
   \<and> (\<forall>c. iw_throws dimension_mismatch_world c = None)
   \<and> loader_load dimension_mismatch_world = Inr [example_chunk]
   \<and> splitDocuments dimension_mismatch_world [example_chunk] = Inr [example_chunk]
   \<and> fromDocuments dimension_mismatch_world [example_chunk]
       = Some (Thrown (Some ''expected 1536 dimensions: vector dimension mismatch''))
   \<and> run_end (processAndEmbedPolicy dimension_mismatch_world) = Resolved
   \<and> drop 14 (run_effects (processAndEmbedPolicy dimension_mismatch_world)) =
       [ConsoleError (UploadFailed
          (Thrown (Some ''expected 1536 dimensions: vector dimension mismatch''))),
        ConsoleError (DimensionHint 1), ConsoleError (DimensionHint 2),
        ConsoleError (DimensionHint 3), ConsoleError (DimensionHint 4),
        ConsoleLog ProcessDone]
   \<and> exit_status (processPolicy_script dimension_mismatch_world) = 0
   \<and> fromDocuments connection_refused_world [example_chunk]
       = Some (Thrown (Some ''connection refused''))
   \<and> run_end (processAndEmbedPolicy connection_refused_world) = Resolved
   \<and> drop 14 (run_effects (processAndEmbedPolicy connection_refused_world)) =
       [ConsoleError (UploadFailed (Thrown (Some ''connection refused''))),
        ConsoleLog ProcessDone]
   \<and> exit_status (processPolicy_script connection_refused_world) = 0"
proof -
  have a1: "\<not> config_missing (iw_env dimension_mismatch_world)"
    by (simp add: dimension_mismatch_world_def example_env_complete)
  have a2: "\<forall>c. iw_throws dimension_mismatch_world c = None"
    by (simp add: dimension_mismatch_world_def)
  have a3: "loader_load dimension_mismatch_world = Inr [example_chunk]"
    by (simp add: dimension_mismatch_world_def)
  have a4: "splitDocuments dimension_mismatch_world [example_chunk] = Inr [example_chunk]"
    by (simp add: dimension_mismatch_world_def)
  have a5: "fromDocuments dimension_mismatch_world [example_chunk]
              = Some (Thrown (Some ''expected 1536 dimensions: vector dimension mismatch''))"
    by (simp add: dimension_mismatch_world_def)
  have a6: "message (Thrown (Some ''expected 1536 dimensions: vector dimension mismatch''))
              = Some ''expected 1536 dimensions: vector dimension mismatch''"
    by simp
  have a7: "js_includes ''expected 1536 dimensions: vector dimension mismatch''
              ''vector dimension mismatch''"
    by simp
  have b1: "\<not> config_missing (iw_env connection_refused_world)"
    by (simp add: connection_refused_world_def example_env_complete)
  have b2: "\<forall>c. iw_throws connection_refused_world c = None"
    by (simp add: connection_refused_world_def)
  have b3: "loader_load connection_refused_world = Inr [example_chunk]"
    by (simp add: connection_refused_world_def)
  have b4: "splitDocuments connection_refused_world [example_chunk] = Inr [example_chunk]"
    by (simp add: connection_refused_world_def)
  have b5: "fromDocuments connection_refused_world [example_chunk]
              = Some (Thrown (Some ''connection refused''))"
    by (simp add: connection_refused_world_def)
  have b6: "message (Thrown (Some ''connection refused'')) = Some ''connection refused''"
    by simp
  have b7: "\<not> js_includes ''connection refused'' ''vector dimension mismatch''"
    by simp
  note A = store_failure_is_caught [OF a1 a2 a3 a4 a5 a6]
  note B = store_failure_is_caught [OF b1 b2 b3 b4 b5 b6]
  have A2: "drop 14 (run_effects (processAndEmbedPolicy dimension_mismatch_world)) =
       [ConsoleError (UploadFailed
          (Thrown (Some ''expected 1536 dimensions: vector dimension mismatch''))),
        ConsoleError (DimensionHint 1), ConsoleError (DimensionHint 2),
        ConsoleError (DimensionHint 3), ConsoleError (DimensionHint 4),
        ConsoleLog ProcessDone]"
    using A a7 by simp
  have B2: "drop 14 (run_effects (processAndEmbedPolicy connection_refused_world)) =
       [ConsoleError (UploadFailed (Thrown (Some ''connection refused''))),
        ConsoleLog ProcessDone]"
    using B b7 by simp
  have A3: "exit_status (processPolicy_script dimension_mismatch_world) = 0"
    using A by simp
  have B3: "exit_status (processPolicy_script connection_refused_world) = 0"
    using B by simp
  from a1 a2 a3 a4 a5 b5 A B A2 B2 A3 B3 show ?thesis by blast
qed

subsection \<open>The query route\<close>

text \<open>
  C2: a POST /query whose body holds a non-empty (truthy) question, with the retriever and
  the model both answering, is answered with status 200 and the JSON body
  \<open>{answer: <parsed output of the model>}\<close>; the memory afterwards is the memory before
  with one turn (this question, this answer) added at the end, so it holds exactly one
  turn more.
\<close>

theorem post_query_answers:
  assumes "truthy (destructure_question body)"
      and "retriever_invoke w (destructure_question body) = Inr docs"
      and "llm_invoke w \<lparr>pv_context = docs,
                         pv_question = \<lparr>question = destructure_question body\<rparr>,
                         pv_chat_history = loadMemoryVariables mem\<rparr> = Inr r"
  shows "h_response (post_query w mem body) =
           \<lparr>res_status = 200,
            res_payload = SendJson (JObj [(''answer'', JStr (stringOutputParser r))])\<rparr>
       \<and> h_memory (post_query w mem body) =
           mem @ [\<lparr>turn_input = destructure_question body, turn_output = stringOutputParser r\<rparr>]
       \<and> length (h_memory (post_query w mem body)) = length mem + 1"
  using assms
  by (simp add: post_query_def conversationChain_invoke_def saveContext_def Let_def)

theorem post_query_answers_witness:
  "truthy (destructure_question example_question)
   \<and> retriever_invoke example_world (destructure_question example_question) = Inr [example_chunk]
   \<and> h_response (post_query example_world example_memory example_question) =
       \<lparr>res_status = 200,
        res_payload = SendJson (JObj [(''answer'', JStr ''Returns are accepted within 30 days.'')])\<rparr>
   \<and> h_memory (post_query example_world example_memory example_question) =
       [\<lparr>turn_input = Some (JStr ''Hi''), turn_output = ''Hello''\<rparr>,
        \<lparr>turn_input = Some (JStr ''Can I return shoes?''),
         turn_output = ''Returns are accepted within 30 days.''\<rparr>]
   \<and> length (h_memory (post_query example_world example_memory example_question)) = 2"
proof -
  have h1: "truthy (destructure_question example_question)"
    by (simp add: example_question_def)
  have h2: "retriever_invoke example_world (destructure_question example_question)
              = Inr [example_chunk]"
    by (simp add: example_world_def)
  have h3: "llm_invoke example_world
              \<lparr>pv_context = [example_chunk],
               pv_question = \<lparr>question = destructure_question example_question\<rparr>,
               pv_chat_history = loadMemoryVariables example_memory\<rparr>
            = Inr (LlmResponse ''Returns are accepted within 30 days.'')"
    by (simp add: example_world_def example_chunk_def)
  from post_query_answers [OF h1 h2 h3] h1 h2
  show ?thesis by (simp add: example_question_def example_memory_def)
qed

text \<open>
  C3: a POST /query whose question is missing or empty (any falsy value) is answered with
  status 400 and a JSON error body; the retriever and the model are not called and the
  memory is unchanged.
\<close>

theorem post_query_rejects:
  assumes "\<not> truthy (destructure_question body)"
  shows "h_response (post_query w mem body) =
           \<lparr>res_status = 400,
            res_payload = SendJson (JObj [(''error'', JStr question_missing_text)])\<rparr>
       \<and> retriever_inputs (h_effects (post_query w mem body)) = []
       \<and> llm_prompts (h_effects (post_query w mem body)) = []
       \<and> h_memory (post_query w mem body) = mem"
  using assms by (simp add: post_query_def Let_def)

theorem post_query_rejects_witness:
  "\<not> truthy (destructure_question (BodyObject []))
   \<and> destructure_question (BodyObject []) = None
   \<and> res_status (h_response (post_query example_world example_memory (BodyObject []))) = 400
   \<and> retriever_inputs (h_effects (post_query example_world example_memory (BodyObject []))) = []
   \<and> llm_prompts (h_effects (post_query example_world example_memory (BodyObject []))) = []
   \<and> h_memory (post_query example_world example_memory (BodyObject [])) = example_memory"
proof -
  have h: "\<not> truthy (destructure_question (BodyObject []))"
    by simp
  from post_query_rejects [OF h, of example_world example_memory] h
  show ?thesis by simp
qed

text \<open>
  C4: a POST /query with a non-empty question for which the retriever or the model throws:
  the chain invocation throws that error inside the handler's \<open>try\<close>, the \<open>catch\<close> logs it
  and answers with status 500 and a JSON error body, and the handler ends normally, so no
  error escapes it and no exit is made: the process goes on serving.
\<close>

theorem post_query_failure:
  assumes "truthy (destructure_question body)"
      and "retriever_invoke w (destructure_question body) = Inl err
           \<or> (\<exists>docs. retriever_invoke w (destructure_question body) = Inr docs
                \<and> llm_invoke w \<lparr>pv_context = docs,
                                 pv_question = \<lparr>question = destructure_question body\<rparr>,
                                 pv_chat_history = loadMemoryVariables mem\<rparr> = Inl err)"
  shows "cr_outcome (conversationChain_invoke w mem \<lparr>question = destructure_question body\<rparr>)
           = Inl err
       \<and> h_response (post_query w mem body) =
           \<lparr>res_status = 500,
            res_payload = SendJson (JObj [(''error'', JStr generate_failed_text)])\<rparr>
       \<and> last (h_effects (post_query w mem body)) = ConsoleError (GenerateFailed err)
       \<and> h_end (post_query w mem body) = Resolved
       \<and> (\<exists>mem'. serve (Serving (Some mem)) (w, PostQuery body) = Serving (Some mem'))
       \<and> (\<forall>n. serve (Serving (Some mem)) (w, PostQuery body) \<noteq> Exited n)"
  using assms
  by (auto simp add: post_query_def conversationChain_invoke_def Let_def)

theorem post_query_failure_witness:
  "truthy (destructure_question example_question)
   \<and> retriever_invoke retriever_down_world (destructure_question example_question)
       = Inl (Thrown (Some ''fetch failed''))
   \<and> res_status (h_response (post_query retriever_down_world example_memory example_question))
       = 500
   \<and> h_end (post_query retriever_down_world example_memory example_question) = Resolved
   \<and> res_status (h_response (post_query llm_down_world example_memory example_question)) = 500
   \<and> h_end (post_query llm_down_world example_memory example_question) = Resolved
   \<and> last (h_effects (post_query llm_down_world example_memory example_question))
       = ConsoleError (GenerateFailed (Thrown (Some ''quota exceeded'')))
   \<and> (\<forall>n. serve (Serving (Some example_memory)) (llm_down_world, PostQuery example_question)
         \<noteq> Exited n)"
proof -
  have h1: "truthy (destructure_question example_question)"
    by (simp add: example_question_def)
  have h2: "retriever_invoke retriever_down_world (destructure_question example_question)
              = Inl (Thrown (Some ''fetch failed''))"
    by (simp add: retriever_down_world_def)
  have h3: "\<exists>docs. retriever_invoke llm_down_world (destructure_question example_question)
                     = Inr docs
              \<and> llm_invoke llm_down_world
                  \<lparr>pv_context = docs,
                   pv_question = \<lparr>question = destructure_question example_question\<rparr>,
                   pv_chat_history = loadMemoryVariables example_memory\<rparr>
                = Inl (Thrown (Some ''quota exceeded''))"
    by (simp add: llm_down_world_def)
  note A = post_query_failure [OF h1 disjI1 [OF h2], of example_memory]
  note B = post_query_failure [OF h1 disjI2 [OF h3]]
  have a: "res_status (h_response
             (post_query retriever_down_world example_memory example_question)) = 500"
    using A by simp
  have b: "res_status (h_response (post_query llm_down_world example_memory example_question))
             = 500"
    using B by simp
  from h1 h2 a b A B show ?thesis by blast
qed

text \<open>
  C5: retrieval depends on the new question alone. Whatever the memory holds, the chain
  calls the retriever once, with \<open>input.question\<close>; two runs on the same input with
  different memories give the retriever the same input, and the prompts they build have
  the same \<open>context\<close> and the same \<open>question\<close>. The memory reaches the prompt in its
  \<open>chat_history\<close> value only.
\<close>

theorem retrieval_uses_question_only:
  "retriever_inputs (cr_effects (conversationChain_invoke w mem1 input)) = [question input]
   \<and> retriever_inputs (cr_effects (conversationChain_invoke w mem1 input))
       = retriever_inputs (cr_effects (conversationChain_invoke w mem2 input))
   \<and> map pv_context (llm_prompts (cr_effects (conversationChain_invoke w mem1 input)))
       = map pv_context (llm_prompts (cr_effects (conversationChain_invoke w mem2 input)))
   \<and> map pv_question (llm_prompts (cr_effects (conversationChain_invoke w mem1 input)))
       = map pv_question (llm_prompts (cr_effects (conversationChain_invoke w mem2 input)))
   \<and> map pv_chat_history (llm_prompts (cr_effects (conversationChain_invoke w mem1 input)))
       = (if isl (retriever_invoke w (question input)) then []
          else [loadMemoryVariables mem1])"
  by (simp add: conversationChain_invoke_def Let_def split: sum.splits)

theorem retrieval_uses_question_only_witness:
  "retriever_inputs (cr_effects (conversationChain_invoke example_world example_memory
       \<lparr>question = Some (JStr ''Can I return shoes?'')\<rparr>)) = [Some (JStr ''Can I return shoes?'')]
   \<and> retriever_inputs (cr_effects (conversationChain_invoke example_world other_memory
       \<lparr>question = Some (JStr ''Can I return shoes?'')\<rparr>)) = [Some (JStr ''Can I return shoes?'')]
   \<and> map pv_context (llm_prompts (cr_effects (conversationChain_invoke example_world
       example_memory \<lparr>question = Some (JStr ''Can I return shoes?'')\<rparr>)))
     = map pv_context (llm_prompts (cr_effects (conversationChain_invoke example_world
       other_memory \<lparr>question = Some (JStr ''Can I return shoes?'')\<rparr>)))
   \<and> loadMemoryVariables example_memory \<noteq> loadMemoryVariables other_memory"
proof -
  have d: "loadMemoryVariables example_memory \<noteq> loadMemoryVariables other_memory"
    by (simp add: loadMemoryVariables_def example_memory_def other_memory_def)
  from retrieval_uses_question_only
         [of example_world example_memory "\<lparr>question = Some (JStr ''Can I return shoes?'')\<rparr>"
             other_memory]
       retrieval_uses_question_only
         [of example_world other_memory "\<lparr>question = Some (JStr ''Can I return shoes?'')\<rparr>"
             example_memory]
       d
  show ?thesis by simp
qed

text \<open>
  C9: the conversation memory is append-only. For every request the service accepts (GET /,
  and POST /query whether it is rejected, fails or succeeds), the memory before the request
  is a prefix of the memory after it: no stored turn is edited, moved or removed.
\<close>

theorem memory_append_only:
  "prefix mem (h_memory (handle_request w mem req))"
  by (cases req)
     (simp_all add: get_root_def post_query_def saveContext_def Let_def split: sum.splits)

theorem memory_append_only_witness:
  "prefix example_memory (h_memory (handle_request example_world example_memory GetRoot))
   \<and> prefix example_memory
        (h_memory (handle_request example_world example_memory (PostQuery example_question)))
   \<and> prefix example_memory
        (h_memory (handle_request llm_down_world example_memory (PostQuery example_question)))
   \<and> prefix example_memory
        (h_memory (handle_request example_world example_memory (PostQuery (BodyObject []))))"
  using memory_append_only [of example_memory example_world GetRoot]
        memory_append_only [of example_memory example_world "PostQuery example_question"]
        memory_append_only [of example_memory llm_down_world "PostQuery example_question"]
        memory_append_only [of example_memory example_world "PostQuery (BodyObject [])"]
  by blast

text \<open>
  C10: a failed query leaves the memory as it was. Whenever POST /query answers with status
  500, the memory after the request equals the memory before it, and the request made no
  call to \<open>saveContext\<close>.
\<close>

theorem failed_query_keeps_memory:
  assumes "res_status (h_response (post_query w mem body)) = 500"
  shows "h_memory (post_query w mem body) = mem
       \<and> (\<forall>q a. SaveContext q a \<notin> set (h_effects (post_query w mem body)))"
  using assms
  by (auto simp add: post_query_def conversationChain_invoke_def Let_def
      split: sum.splits if_splits)

theorem failed_query_keeps_memory_witness:
  "res_status (h_response (post_query llm_down_world example_memory example_question)) = 500
   \<and> h_memory (post_query llm_down_world example_memory example_question) = example_memory
   \<and> (\<forall>q a. SaveContext q a
         \<notin> set (h_effects (post_query llm_down_world example_memory example_question)))"
proof -
  have h: "res_status (h_response (post_query llm_down_world example_memory example_question))
             = 500"
    by (simp add: post_query_def conversationChain_invoke_def llm_down_world_def
        example_question_def Let_def)
  from failed_query_keeps_memory [OF h] h show ?thesis by blast
qed

subsection \<open>Startup\<close>

text \<open>
  C6: if any of GOOGLE_API_KEY, SUPABASE_URL and SUPABASE_SERVICE_ROLE_KEY is absent at
  startup, the service and the ingestion script each print the missing-configuration
  message on the error stream and exit with status 1, and that message is the last thing
  they do: the service builds no component, registers no route and does not listen; the
  script loads, splits and uploads nothing.
\<close>

theorem missing_config_exits:
  assumes "e ''GOOGLE_API_KEY'' = None \<or> e ''SUPABASE_URL'' = None
           \<or> e ''SUPABASE_SERVICE_ROLE_KEY'' = None"
  shows "index_main e throws listen =
           \<lparr>st_effects = [AppUse Cors, AppUse ExpressJson, ConsoleLog DiagHeader] @
                          env_diagnostics e @ [ConsoleLog DiagFooter, ConsoleError MissingEnv],
            st_state = Exited 1\<rparr>
       \<and> processPolicy_script (w\<lparr>iw_env := e\<rparr>) =
           \<lparr>script_effects = ConsoleLog ScriptStarted # env_diagnostics e @
                              [ConsoleLog StartProcess, ConsoleError MissingEnv],
            exit_status = 1\<rparr>"
proof -
  from assms have "config_missing e"
    by (rule absent_is_missing)
  then show ?thesis
    by (simp add: index_main_def processPolicy_script_def processAndEmbedPolicy_def Let_def)
qed

theorem missing_config_exits_witness:
  "incomplete_env ''SUPABASE_URL'' = None
   \<and> st_state (index_main incomplete_env (\<lambda>c. None) (\<lambda>p. None)) = Exited 1
   \<and> st_effects (index_main incomplete_env (\<lambda>c. None) (\<lambda>p. None)) =
       [AppUse Cors, AppUse ExpressJson, ConsoleLog DiagHeader,
        ConsoleLog (DiagGoogleApiKey True), ConsoleLog (DiagSupabaseUrl False),
        ConsoleLog (DiagServiceRoleKey True), ConsoleLog DiagFooter, ConsoleError MissingEnv]
   \<and> exit_status (processPolicy_script (connection_refused_world\<lparr>iw_env := incomplete_env\<rparr>)) = 1
   \<and> script_effects (processPolicy_script (connection_refused_world\<lparr>iw_env := incomplete_env\<rparr>)) =
       [ConsoleLog ScriptStarted,
        ConsoleLog (DiagGoogleApiKey True), ConsoleLog (DiagSupabaseUrl False),
        ConsoleLog (DiagServiceRoleKey True), ConsoleLog StartProcess, ConsoleError MissingEnv]"
proof -
  have h: "incomplete_env ''SUPABASE_URL'' = None"
    by (simp add: incomplete_env_def)
  have d: "env_diagnostics incomplete_env =
             [ConsoleLog (DiagGoogleApiKey True), ConsoleLog (DiagSupabaseUrl False),
              ConsoleLog (DiagServiceRoleKey True)]"
    by (simp add: env_diagnostics_def incomplete_env_def env_truthy_def)
  have hyp: "incomplete_env ''GOOGLE_API_KEY'' = None \<or> incomplete_env ''SUPABASE_URL'' = None
               \<or> incomplete_env ''SUPABASE_SERVICE_ROLE_KEY'' = None"
    using h by simp
  from missing_config_exits
         [where e = incomplete_env and throws = "\<lambda>c. None" and listen = "\<lambda>p. None"
            and w = connection_refused_world,
          OF hyp]
       h d
  show ?thesis by simp
qed

text \<open>
  C8: when no construction throws, \<open>initializeAIComponents\<close> builds, in this order: the
  model client (temperature 0, at most 2 retries), the database client, the embeddings,
  the vector store on table "documents" with search function "match_documents", the
  retriever with k = 3, the conversation memory, the prompt template and the chain. It
  does not exit, and it leaves the module's variables holding the model client, the vector
  store, the retriever, the chain, and a conversation memory with no turn.
\<close>

theorem bootstrap_constructs:
  assumes "\<forall>c. throws c = None"
  shows "constructions (ir_effects (initializeAIComponents e throws)) =
           [NewChatGoogleGenerativeAI (e ''GOOGLE_API_KEY'') ''gemini-1.5-flash'' 0 2,
            CreateClient (e ''SUPABASE_URL'') (e ''SUPABASE_SERVICE_ROLE_KEY''),
            NewGoogleGenerativeAIEmbeddings (e ''GOOGLE_API_KEY'') ''embedding-001'',
            NewSupabaseVectorStore ''documents'' ''match_documents'',
            AsRetriever 3,
            NewBufferMemory ''chat_history'' True,
            PromptFromTemplate,
            RunnableSequenceFrom]
       \<and> ir_exit (initializeAIComponents e throws) = None
       \<and> ir_globals (initializeAIComponents e throws) =
           \<lparr>g_llm = Some (NewChatGoogleGenerativeAI (e ''GOOGLE_API_KEY'')
                             ''gemini-1.5-flash'' 0 2),
            g_vectorStore = Some (NewSupabaseVectorStore ''documents'' ''match_documents''),
            g_retriever = Some (AsRetriever 3),
            g_conversationChain = Some RunnableSequenceFrom,
            g_memory = Some []\<rparr>"
  using assms
  by (simp add: initializeAIComponents_def init_statements_def undefined_globals_def)

theorem bootstrap_constructs_witness:
  "(\<forall>c. (\<lambda>c. None :: js_error option) c = None)
   \<and> constructions (ir_effects (initializeAIComponents example_env (\<lambda>c. None))) =
       [NewChatGoogleGenerativeAI (Some ''g-key'') ''gemini-1.5-flash'' 0 2,
        CreateClient (Some ''https://db.example'') (Some ''role-key''),
        NewGoogleGenerativeAIEmbeddings (Some ''g-key'') ''embedding-001'',
        NewSupabaseVectorStore ''documents'' ''match_documents'',
        AsRetriever 3,
        NewBufferMemory ''chat_history'' True,
        PromptFromTemplate,
        RunnableSequenceFrom]
   \<and> ir_exit (initializeAIComponents example_env (\<lambda>c. None)) = None
   \<and> g_retriever (ir_globals (initializeAIComponents example_env (\<lambda>c. None)))
       = Some (AsRetriever 3)
   \<and> g_memory (ir_globals (initializeAIComponents example_env (\<lambda>c. None))) = Some []"
proof -
  have h1: "\<forall>c. (\<lambda>c. None :: js_error option) c = None"
    by simp
  from bootstrap_constructs [OF h1, of example_env] h1
  show ?thesis by (simp add: example_env_def)
qed

end
